theory Spec2Isabelle
  imports Complex_Main "HOL-Library.Sublist"
begin

section \<open>JavaScript values\<close>

text \<open>
  The repository is a React application written in TypeScript.  Its diagram state carries
  values of type \<^verbatim>\<open>any\<close>, so the embedding has a datatype of JavaScript values.
  Strings are lists of characters; a \<^typ>\<open>char\<close> stands for one code unit (the embedding covers
  the code units below 256).  Finite numbers are read as reals; no arithmetic on them is
  evaluated inside the embedding (the only subtraction the source performs on untyped
  values is passed in as a parameter).  Objects are association lists from field names to
  values, in insertion order.
\<close>

datatype jsnum = Fin real | PosInf | NegInf | NaN

datatype jsval =
    JUndefined
  | JNull
  | JBool bool
  | JNum jsnum
  | JStr string
  | JArr "jsval list"
  | JObj "(string \<times> jsval) list"

type_synonym obj = "(string \<times> jsval) list"

text \<open>ToBoolean: \<^verbatim>\<open>undefined\<close>, \<^verbatim>\<open>null\<close>, \<^verbatim>\<open>false\<close>, \<^verbatim>\<open>0\<close>, \<^verbatim>\<open>NaN\<close> and \<^verbatim>\<open>""\<close> are falsy.\<close>

fun truthy :: "jsval \<Rightarrow> bool" where
  "truthy JUndefined = False"
| "truthy JNull = False"
| "truthy (JBool b) = b"
| "truthy (JNum n) = (n \<noteq> NaN \<and> n \<noteq> Fin 0)"
| "truthy (JStr s) = (s \<noteq> [])"
| "truthy (JArr xs) = True"
| "truthy (JObj fs) = True"

text \<open>Property read \<^verbatim>\<open>el.k\<close> on a plain object: an absent field reads as \<^verbatim>\<open>undefined\<close>.\<close>

definition field :: "obj \<Rightarrow> string \<Rightarrow> jsval" where
  "field el k = (case map_of el k of None \<Rightarrow> JUndefined | Some v \<Rightarrow> v)"

text \<open>\<^verbatim>\<open>{ ...el, k: v }\<close>: an existing key keeps its place, a new key goes last.\<close>

fun set_field :: "string \<Rightarrow> jsval \<Rightarrow> obj \<Rightarrow> obj" where
  "set_field k v [] = [(k, v)]"
| "set_field k v (p # ps) = (if fst p = k then (k, v) # ps else p # set_field k v ps)"

text \<open>\<^verbatim>\<open>a || b\<close>\<close>

definition js_or :: "jsval \<Rightarrow> jsval \<Rightarrow> jsval" where
  "js_or a b = (if truthy a then a else b)"

text \<open>\<^verbatim>\<open>Number.prototype.toString()\<close> on a non-negative integer: its decimal digits.\<close>

fun toString :: "nat \<Rightarrow> string" where
  "toString n =
     (if n < 10 then [char_of (48 + n)]
      else toString (n div 10) @ [char_of (48 + n mod 10)])"

declare toString.simps [simp del]

section \<open>Application state (src/types.ts, src/App.tsx)\<close>

datatype DiagramType = MERMAID | EXCALIDRAW

record DiagramState =
  mermaidCode :: string
  excalidrawElements :: jsval
  title :: string

record HistoryItem =
  item_id :: string
  timestamp :: nat
  item_type :: DiagramType
  preview :: string
  state :: DiagramState

text \<open>
  The state of the \<^verbatim>\<open>App\<close> component that its handlers read and write, together with the
  two effects they have on the outside: the \<^verbatim>\<open>diagram_history\<close> entry of local storage
  (kept unserialised) and the alerts shown so far.
\<close>

record app =
  activeTab :: DiagramType
  isLoading :: bool
  diagramState :: DiagramState
  history :: "HistoryItem list"
  showCodeEditor :: bool
  diagram_history :: "HistoryItem list option"
  alerts :: "string list"

definition initial_app :: app where
  "initial_app =
     \<lparr> activeTab = MERMAID, isLoading = False,
       diagramState = \<lparr> mermaidCode = ''graph TD'' @ [CHR 0x0A] @ ''    A[Start] --> B{Is it working?}''
                          @ [CHR 0x0A] @ ''    B -- Yes --> C[Great!]'' @ [CHR 0x0A] @ ''    B -- No --> D[Debug]'',
                        excalidrawElements = JArr [], title = ''Untitled Diagram'' \<rparr>,
       history = [], showCodeEditor = True, diagram_history = None, alerts = [] \<rparr>"

definition alert :: "string \<Rightarrow> app \<Rightarrow> app" where
  "alert msg s = s\<lparr>alerts := alerts s @ [msg]\<rparr>"

text \<open>
  \<^verbatim>\<open>saveToHistory\<close> reads \<^verbatim>\<open>activeTab\<close> and \<^verbatim>\<open>history\<close> from the render in which the
  handler was created (\<open>cap\<close>), and writes into the state current when it runs (\<open>cur\<close>).
  \<open>now1\<close> and \<open>now2\<close> are the two readings of \<^verbatim>\<open>Date.now()\<close>.  \<^verbatim>\<open>localStorage.setItem\<close>
  may throw (quota); \<open>setItem_ok\<close> says whether it succeeds, and the second component of
  the result says whether \<^verbatim>\<open>saveToHistory\<close> returned normally.
\<close>

definition saveToHistory ::
  "app \<Rightarrow> nat \<Rightarrow> nat \<Rightarrow> bool \<Rightarrow> DiagramState \<Rightarrow> app \<Rightarrow> app \<times> bool" where
  "saveToHistory cap now1 now2 setItem_ok newState cur =
     (let newItem = \<lparr> item_id = toString now1, timestamp = now2, item_type = activeTab cap,
                       preview = title newState, state = newState \<rparr>;
          updatedHistory = take 20 (newItem # history cap);
          s = cur\<lparr>history := updatedHistory\<rparr>
      in if setItem_ok then (s\<lparr>diagram_history := Some updatedHistory\<rparr>, True)
         else (s, False))"

text \<open>
  \<^verbatim>\<open>handleGenerate\<close> sets the loading flag, awaits the generation service and then runs
  the rest.  \<open>response\<close> is what the service returned (\<open>None\<close>: the promise was rejected);
  \<open>parse\<close> is \<^verbatim>\<open>JSON.parse\<close> (\<open>None\<close>: it throws).
\<close>

definition handleGenerate_start :: "app \<Rightarrow> app" where
  "handleGenerate_start s = s\<lparr>isLoading := True\<rparr>"

definition handleGenerate_resume ::
  "(string \<Rightarrow> jsval option) \<Rightarrow> app \<Rightarrow> string \<Rightarrow> string option \<Rightarrow> nat \<Rightarrow> nat \<Rightarrow> bool \<Rightarrow> app \<Rightarrow> app" where
  "handleGenerate_resume parse cap prompt response now1 now2 setItem_ok cur =
     (let s1 =
        (case response of
           None \<Rightarrow> alert ''Failed to generate diagram. Please check your API key and try again.'' cur
         | Some r \<Rightarrow>
             if activeTab cap = MERMAID then
               (let newState = (diagramState cap)\<lparr>mermaidCode := r, title := take 30 prompt\<rparr>;
                    (s, ok) = saveToHistory cap now1 now2 setItem_ok newState
                                (cur\<lparr>diagramState := newState\<rparr>)
                in if ok then s\<lparr>showCodeEditor := True\<rparr>
                   else alert ''Failed to generate diagram. Please check your API key and try again.'' s)
             else
               (case parse r of
                  None \<Rightarrow> alert ''AI generated invalid data structure. Please try again.'' cur
                | Some elements \<Rightarrow>
                    (let newState = (diagramState cap)\<lparr>excalidrawElements := elements,
                                                        title := take 30 prompt\<rparr>;
                         (s, ok) = saveToHistory cap now1 now2 setItem_ok newState
                                     (cur\<lparr>diagramState := newState\<rparr>)
                     in if ok then s
                        else alert ''AI generated invalid data structure. Please try again.'' s)))
      in s1\<lparr>isLoading := False\<rparr>)"

text \<open>
  \<^verbatim>\<open>handleConvertToExcalidraw\<close>: \<open>parseMermaidToExcalidraw\<close> stands for loading the
  conversion module and calling it on the source text; \<open>Inl m\<close> is a failure whose
  \<^verbatim>\<open>message\<close> is \<open>m\<close> (\<open>None\<close> when it has none).
\<close>

definition handleConvertToExcalidraw_start :: "app \<Rightarrow> app" where
  "handleConvertToExcalidraw_start s = s\<lparr>isLoading := True\<rparr>"

definition handleConvertToExcalidraw_resume ::
  "(string \<Rightarrow> string option + jsval) \<Rightarrow> app \<Rightarrow> app \<Rightarrow> app" where
  "handleConvertToExcalidraw_resume parseMermaidToExcalidraw cap cur =
     (let s1 =
        (case parseMermaidToExcalidraw (mermaidCode (diagramState cap)) of
           Inr elements \<Rightarrow>
             cur\<lparr>diagramState := (diagramState cur)\<lparr>excalidrawElements := elements\<rparr>,
                  activeTab := EXCALIDRAW\<rparr>
         | Inl m \<Rightarrow>
             alert (''Failed to convert diagram: ''
                    @ (case m of None \<Rightarrow> ''Unknown error''
                       | Some t \<Rightarrow> if t = [] then ''Unknown error'' else t)
                    @ ''. Check console for details.'') cur)
      in s1\<lparr>isLoading := False\<rparr>)"

section \<open>The diagram editor (the \<^verbatim>\<open>MermaidEditor\<close> component of src/App.tsx)\<close>

subsection \<open>Whitespace\<close>

text \<open>
  The white space and line terminator code units below 256: TAB, LF, VT, FF, CR, SP and
  NBSP.  These are what \<^verbatim>\<open>String.prototype.trim\<close> strips and what \<^verbatim>\<open>\s\<close> matches.
\<close>

definition is_ws :: "char \<Rightarrow> bool" where
  "is_ws c = (c \<in> set [CHR 0x09, CHR 0x0A, CHR 0x0B, CHR 0x0C, CHR 0x0D, CHR 0x20, CHR 0xA0])"

definition trim :: "string \<Rightarrow> string" where
  "trim s = rev (dropWhile is_ws (rev (dropWhile is_ws s)))"


subsection \<open>Rendering\<close>

text \<open>
  \<^verbatim>\<open>renderDiagram\<close> is asynchronous: it runs up to \<^verbatim>\<open>await mermaid.render(id, code)\<close>,
  and its continuation runs when the library has finished.  \<open>inflight\<close> holds the source
  texts of the calls that are suspended at the \<^verbatim>\<open>await\<close>, oldest first; each call keeps the
  \<^verbatim>\<open>code\<close> of the render in which it was started.  The library is the parameter
  \<open>mermaid_render\<close>: \<open>Inr svg\<close> on success, \<open>Inl m\<close> when it throws an error whose
  \<^verbatim>\<open>message\<close> is \<open>m\<close> (\<open>None\<close>: no message).
\<close>

record editor =
  svgContent :: string
  error :: "string option"
  inflight :: "string list"



definition renderDiagram :: "string \<Rightarrow> editor \<Rightarrow> editor" where
  "renderDiagram code ed =
     (if trim code = [] then ed\<lparr>svgContent := [], error := None\<rparr>
      else ed\<lparr>error := None, inflight := inflight ed @ [code]\<rparr>)"





text \<open>What the canvas shows: the error panel when there is an error, the svg otherwise.\<close>

definition displayed :: "editor \<Rightarrow> string + string" where
  "displayed ed = (case error ed of Some e \<Rightarrow> Inl e | None \<Rightarrow> Inr (svgContent ed))"

subsection \<open>Replacement templates\<close>

text \<open>
  The second argument of \<^verbatim>\<open>String.prototype.replace\<close> is a template: \<^verbatim>\<open>$$\<close> is a dollar
  sign, \<^verbatim>\<open>$&\<close> the match, \<^verbatim>\<open>$`\<close> the text before it, \<^verbatim>\<open>$'\<close> the text after it, and
  \<^verbatim>\<open>$n\<close>, \<^verbatim>\<open>$nn\<close> the capture groups; a two-digit reference beyond the number of groups
  is read as a one-digit reference followed by a digit, and a reference that names no
  group stays as it is written.  The patterns used here have no named groups.
\<close>

definition is_digit :: "char \<Rightarrow> bool" where
  "is_digit c = (48 \<le> (of_char c :: nat) \<and> (of_char c :: nat) \<le> 57)"

definition digit_val :: "char \<Rightarrow> nat" where
  "digit_val c = of_char c - 48"

definition group_ref :: "string list \<Rightarrow> nat \<Rightarrow> string \<Rightarrow> string" where
  "group_ref captures index ref =
     (if 1 \<le> index \<and> index \<le> length captures then captures ! (index - 1) else ref)"

fun expand :: "string list \<Rightarrow> string \<Rightarrow> string \<Rightarrow> string \<Rightarrow> string \<Rightarrow> string" where
  "expand captures matched preceding following [] = []"
| "expand captures matched preceding following [c] = [c]"
| "expand captures matched preceding following (c # d # r) =
     (if c \<noteq> CHR ''$'' then c # expand captures matched preceding following (d # r)
      else if d = CHR ''$'' then CHR ''$'' # expand captures matched preceding following r
      else if d = CHR 0x60 then preceding @ expand captures matched preceding following r
      else if d = CHR ''&'' then matched @ expand captures matched preceding following r
      else if d = CHR 0x27 then following @ expand captures matched preceding following r
      else if is_digit d then
        (case r of
           e # r' \<Rightarrow>
             if is_digit e \<and> 10 * digit_val d + digit_val e \<le> length captures
             then group_ref captures (10 * digit_val d + digit_val e) [c, d, e]
                    @ expand captures matched preceding following r'
             else group_ref captures (digit_val d) [c, d] @ expand captures matched preceding following r
         | [] \<Rightarrow> group_ref captures (digit_val d) [c, d])
      else c # expand captures matched preceding following (d # r))"

subsection \<open>Committing a label edit\<close>

text \<open>
  \<^verbatim>\<open>submitNodeUpdate\<close> escapes every regular-expression metacharacter of the old label, so
  the label is matched literally, and builds the global pattern
  \<^verbatim>\<open>(\[|\(|\{|>|\/)([\s]*OLD[\s]*)(\]|\)|\}|\)|\\)\<close>.
  A match is an opening character, white space, the old label, white space and a closing
  character.  The first \<^verbatim>\<open>[\s]*\<close> is greedy and gives white space back one character at a
  time (the label itself may start with white space); the second one has nothing to give
  back, since no closing character is white space.
\<close>

definition is_opener :: "char \<Rightarrow> bool" where
  "is_opener c = (c \<in> set [CHR ''['', CHR ''('', CHR ''{'', CHR ''>'', CHR ''/''])"

definition is_closer :: "char \<Rightarrow> bool" where
  "is_closer c = (c \<in> set [CHR '']'', CHR '')'', CHR ''}'', CHR '')'', CHR 0x5C])"

text \<open>The old label, white space and a closing character at the front of \<open>r\<close>.\<close>

definition label_then_closer :: "string \<Rightarrow> string \<Rightarrow> (string \<times> char \<times> string) option" where
  "label_then_closer old r =
     (if prefix old r then
        (let r2 = drop (length old) r
         in case dropWhile is_ws r2 of
              [] \<Rightarrow> None
            | c # rest \<Rightarrow> if is_closer c then Some (old @ takeWhile is_ws r2, c, rest) else None)
      else None)"

text \<open>Skipping \<open>k\<close> white space characters first, then \<open>k - 1\<close>, down to none.\<close>

fun label_backtrack :: "string \<Rightarrow> string \<Rightarrow> nat \<Rightarrow> (string \<times> char \<times> string) option" where
  "label_backtrack old r k =
     (case label_then_closer old (drop k r) of
        Some (g, c, rest) \<Rightarrow> Some (take k r @ g, c, rest)
      | None \<Rightarrow> (case k of 0 \<Rightarrow> None | Suc k' \<Rightarrow> label_backtrack old r k'))"

declare label_backtrack.simps [simp del]

text \<open>A match at the front of \<open>s\<close>: the three groups and the text after the match.\<close>

definition label_match :: "string \<Rightarrow> string \<Rightarrow> (char \<times> string \<times> char \<times> string) option" where
  "label_match old s =
     (case s of
        [] \<Rightarrow> None
      | opn # r \<Rightarrow>
          if is_opener opn then
            (case label_backtrack old r (length (takeWhile is_ws r)) of
               Some (g, c, rest) \<Rightarrow> Some (opn, g, c, rest)
             | None \<Rightarrow> None)
          else None)"

text \<open>
  \<^verbatim>\<open>code.replace(regex, template)\<close> with the \<^verbatim>\<open>g\<close> flag: every match, from left to right,
  the search resuming where the last match ended.  \<open>preceding\<close> is the text already passed.
\<close>

function replace_labels :: "string \<Rightarrow> string \<Rightarrow> string \<Rightarrow> string \<Rightarrow> string" where
  "replace_labels old template preceding s =
     (case label_match old s of
        Some (opn, g, c, rest) \<Rightarrow>
          expand [[opn], g, [c]] (opn # g @ [c]) preceding rest template
            @ replace_labels old template (preceding @ opn # g @ [c]) rest
      | None \<Rightarrow>
          (case s of
             [] \<Rightarrow> []
           | x # xs \<Rightarrow> x # replace_labels old template (preceding @ [x]) xs))"
  by pat_completeness auto
termination
proof -
  have tail: "length rest' < length r'"
    if "label_then_closer old' r' = Some (g', c', rest')" for old' r' g' c' rest'
  proof -
    from that obtain r2 where r2: "dropWhile is_ws r2 = c' # rest'" "length r2 \<le> length r'"
      by (auto simp: label_then_closer_def Let_def split: if_splits list.splits)
    have "length (dropWhile is_ws r2) \<le> length r2"
      by (rule length_dropWhile_le)
    with r2 show ?thesis by simp
  qed
  have shorter: "length rest' < length r'"
    if "label_backtrack old' r' k = Some (g', c', rest')" for old' r' k g' c' rest'
    using that
  proof (induction k arbitrary: g')
    case 0
    then obtain g2 where "label_then_closer old' (drop 0 r') = Some (g2, c', rest')"
      by (subst (asm) label_backtrack.simps) (auto split: option.splits)
    from tail [OF this] show ?case by simp
  next
    case (Suc k)
    show ?case
    proof (cases "label_then_closer old' (drop (Suc k) r')")
      case None
      with Suc.prems have "label_backtrack old' r' k = Some (g', c', rest')"
        by (subst (asm) label_backtrack.simps) simp
      then show ?thesis by (rule Suc.IH)
    next
      case (Some t)
      with Suc.prems obtain g2 where
        "label_then_closer old' (drop (Suc k) r') = Some (g2, c', rest')"
        by (subst (asm) label_backtrack.simps) (auto split: prod.splits)
      from tail [OF this] have "length rest' < length (drop (Suc k) r')" .
      then show ?thesis by simp
    qed
  qed
  have matched: "length rest < length s"
    if "label_match old s = Some (opn, g, c, rest)" for old s opn g c rest
  proof -
    from that obtain r where "s = opn # r"
      "label_backtrack old r (length (takeWhile is_ws r)) = Some (g, c, rest)"
      by (auto simp: label_match_def split: list.splits if_splits option.splits)
    with shorter show ?thesis by fastforce
  qed
  show ?thesis
    by (relation "measure (\<lambda>(old, template, preceding, s). length s)") (auto dest: matched)
qed

declare replace_labels.simps [simp del]

text \<open>
  The edit session: the node's label text (the geometry of the overlay plays no part in
  the commit).  \<^verbatim>\<open>submitNodeUpdate\<close> does nothing without a session; otherwise it hands the
  rewritten source to \<^verbatim>\<open>onChange\<close> and closes the session.  The result is the new source
  text and the new session.
\<close>

record editingNode =
  node_id :: string
  text_of :: string

definition submitNodeUpdate ::
  "editingNode option \<Rightarrow> string \<Rightarrow> string \<Rightarrow> string \<times> editingNode option" where
  "submitNodeUpdate editing code newText =
     (case editing of
        None \<Rightarrow> (code, None)
      | Some node \<Rightarrow>
          (replace_labels (text_of node) (''$1'' @ newText @ ''$3'') [] code, None))"

text \<open>
  The handlers that drive an edit session.  \<^verbatim>\<open>handleNodeDoubleClick\<close> opens a session on
  the node under the pointer unless pan mode is on; \<open>hit\<close> is the \<^verbatim>\<open>id\<close> and the text
  content of that node (\<open>None\<close>: the pointer is on no node, or the node has no text
  element).  The textarea shows \<^verbatim>\<open>editingNode.text\<close> and its \<^verbatim>\<open>onChange\<close> writes what was
  typed back into \<^verbatim>\<open>editingNode.text\<close>.  Its \<^verbatim>\<open>onKeyDown\<close> commits on Enter without Shift,
  passing \<^verbatim>\<open>editingNode.text\<close> as the new text, and closes the session on Escape; its
  \<^verbatim>\<open>onBlur\<close> closes the session.
\<close>

definition handleNodeDoubleClick ::
  "bool \<Rightarrow> (string \<times> string) option \<Rightarrow> editingNode option \<Rightarrow> editingNode option" where
  "handleNodeDoubleClick panMode hit editing =
     (if panMode then editing
      else (case hit of
              None \<Rightarrow> editing
            | Some (fullId, currentText) \<Rightarrow> Some \<lparr> node_id = fullId, text_of = currentText \<rparr>))"

definition textarea_onChange :: "string \<Rightarrow> editingNode option \<Rightarrow> editingNode option" where
  "textarea_onChange v editing =
     (case editing of None \<Rightarrow> None | Some node \<Rightarrow> Some (node\<lparr>text_of := v\<rparr>))"

definition textarea_onKeyDown ::
  "string \<Rightarrow> bool \<Rightarrow> editingNode option \<Rightarrow> string \<Rightarrow> string \<times> editingNode option" where
  "textarea_onKeyDown key shiftKey editing code =
     (case editing of
        None \<Rightarrow> (code, None)
      | Some node \<Rightarrow>
          if key = ''Enter'' \<and> \<not> shiftKey then submitNodeUpdate editing code (text_of node)
          else if key = ''Escape'' then (code, None)
          else (code, editing))"

definition textarea_onBlur :: "editingNode option \<Rightarrow> editingNode option" where
  "textarea_onBlur editing = None"

subsection \<open>Orientation\<close>

datatype orientation = TD | LR

fun dir_name :: "orientation \<Rightarrow> string" where
  "dir_name TD = ''TD''"
| "dir_name LR = ''LR''"

definition is_line_terminator :: "char \<Rightarrow> bool" where
  "is_line_terminator c = (c = CHR 0x0A \<or> c = CHR 0x0D)"

definition is_upper :: "char \<Rightarrow> bool" where
  "is_upper c = (65 \<le> (of_char c :: nat) \<and> (of_char c :: nat) \<le> 90)"

text \<open>\<^verbatim>\<open>(graph|flowchart)\<close> at the front of \<open>s\<close>: the keyword and the text after it.\<close>

definition keyword_at :: "string \<Rightarrow> (string \<times> string) option" where
  "keyword_at s =
     (if prefix ''graph'' s then Some (''graph'', drop 5 s)
      else if prefix ''flowchart'' s then Some (''flowchart'', drop 9 s)
      else None)"

text \<open>
  \<^verbatim>\<open>(graph|flowchart)\s+(TD|LR|TB|BT|RL)\<close> at the front of \<open>s\<close>: the keyword, the white
  space, the direction and the text after the match.  The white space is the whole run
  (at least one character): a direction cannot start inside it.
\<close>

definition direction_match :: "string \<Rightarrow> (string \<times> string \<times> string \<times> string) option" where
  "direction_match s =
     (case keyword_at s of
        None \<Rightarrow> None
      | Some (kw, r) \<Rightarrow>
          if takeWhile is_ws r = [] then None
          else (case find (\<lambda>d. prefix d (dropWhile is_ws r)) [''TD'', ''LR'', ''TB'', ''BT'', ''RL''] of
                  None \<Rightarrow> None
                | Some d \<Rightarrow> Some (kw, takeWhile is_ws r, d, drop 2 (dropWhile is_ws r))))"

text \<open>
  \<^verbatim>\<open>code.replace(/^(graph|flowchart)\s+(TD|LR|TB|BT|RL)/m, template)\<close>: the first match
  only; with the \<^verbatim>\<open>m\<close> flag the pattern may start at the beginning of the text and after
  every line terminator.  \<open>bol\<close> says whether \<open>s\<close> starts a line.
\<close>

fun replace_direction :: "string \<Rightarrow> bool \<Rightarrow> string \<Rightarrow> string \<Rightarrow> string" where
  "replace_direction template bol preceding s =
     (case (if bol then direction_match s else None) of
        Some (kw, w, d, rest) \<Rightarrow>
          preceding @ expand [kw, d] (kw @ w @ d) preceding rest template @ rest
      | None \<Rightarrow>
          (case s of
             [] \<Rightarrow> preceding
           | x # xs \<Rightarrow> replace_direction template (is_line_terminator x) (preceding @ [x]) xs))"

declare replace_direction.simps [simp del]

text \<open>
  \<^verbatim>\<open>(graph|flowchart)\s+[A-Z]+\<close> at the front of \<open>s\<close>, and
  \<^verbatim>\<open>code.replace(/(graph|flowchart)\s+[A-Z]+/, template)\<close>: the first match anywhere.
\<close>

definition any_direction_match :: "string \<Rightarrow> (string \<times> string \<times> string) option" where
  "any_direction_match s =
     (case keyword_at s of
        None \<Rightarrow> None
      | Some (kw, r) \<Rightarrow>
          if takeWhile is_ws r = [] \<or> takeWhile is_upper (dropWhile is_ws r) = [] then None
          else Some (kw, takeWhile is_ws r @ takeWhile is_upper (dropWhile is_ws r),
                     dropWhile is_upper (dropWhile is_ws r)))"

fun replace_any_direction :: "string \<Rightarrow> string \<Rightarrow> string \<Rightarrow> string" where
  "replace_any_direction template preceding s =
     (case any_direction_match s of
        Some (kw, m, rest) \<Rightarrow> preceding @ expand [kw] (kw @ m) preceding rest template @ rest
      | None \<Rightarrow>
          (case s of
             [] \<Rightarrow> preceding
           | x # xs \<Rightarrow> replace_any_direction template (preceding @ [x]) xs))"

declare replace_any_direction.simps [simp del]

text \<open>
  \<^verbatim>\<open>toggleOrientation\<close>: the new orientation state and the source text handed to
  \<^verbatim>\<open>onChange\<close>.  \<^verbatim>\<open>code.match(/^(graph|flowchart)/)\<close> has no \<^verbatim>\<open>m\<close> flag and looks at the
  beginning of the text only.
\<close>

definition toggleOrientation :: "orientation \<Rightarrow> string \<Rightarrow> orientation \<times> string" where
  "toggleOrientation orientation code =
     (let newDir = (if orientation = TD then LR else TD);
          template = ''$1 '' @ dir_name newDir;
          newCode = replace_direction template True [] code
      in (newDir,
          if newCode = code \<and> keyword_at code = None
          then ''graph '' @ dir_name newDir @ [CHR 0x0A] @ code
          else if newCode = code then replace_any_direction template [] code
          else newCode))"

text \<open>\<^verbatim>\<open>code.split('\n')\<close>, the lines of a source text.\<close>

fun split_lines :: "string \<Rightarrow> string list" where
  "split_lines [] = [[]]"
| "split_lines (c # s) =
     (if c = CHR 0x0A then [] # split_lines s
      else (case split_lines s of l # ls \<Rightarrow> (c # l) # ls | [] \<Rightarrow> [[c]]))"

subsection \<open>Zoom\<close>

text \<open>
  The scale is a double.  \<open>fl\<close> is the rounding of a real result to a double, so that
  \<open>fl (1/10)\<close> is the literal \<^verbatim>\<open>0.1\<close> and \<open>fl (s - fl (1/10))\<close> is \<^verbatim>\<open>s - 0.1\<close>;
  \<^verbatim>\<open>Math.max\<close> and \<^verbatim>\<open>Math.min\<close> do not round.  \<open>rounding\<close> collects what is used of
  it: it is monotone, it leaves a double as it is, and 0, 1 and 5 are doubles.
\<close>

definition rounding :: "(real \<Rightarrow> real) \<Rightarrow> bool" where
  "rounding fl = ((\<forall>x y. x \<le> y \<longrightarrow> fl x \<le> fl y) \<and> (\<forall>x. fl (fl x) = fl x)
                  \<and> fl 0 = 0 \<and> fl 1 = 1 \<and> fl 5 = 5)"

datatype zoom_op = ZoomOut | ZoomIn | ResetView | Wheel bool real

text \<open>
  The three \<^verbatim>\<open>setScale\<close> updaters and the reset; \<open>Wheel ctrl deltaY\<close> is a wheel event,
  \<open>ctrl\<close> telling whether the control or meta key is held.
\<close>

fun zoom :: "(real \<Rightarrow> real) \<Rightarrow> real \<Rightarrow> zoom_op \<Rightarrow> real" where
  "zoom fl s ZoomOut = max (fl (1/10)) (fl (s - fl (1/10)))"
| "zoom fl s ZoomIn = min 5 (fl (s + fl (1/10)))"
| "zoom fl s ResetView = 1"
| "zoom fl s (Wheel ctrl deltaY) =
     (if ctrl then max (fl (1/10)) (min 5 (fl (s - fl (deltaY * fl (1/1000))))) else s)"

definition zoom_all :: "(real \<Rightarrow> real) \<Rightarrow> zoom_op list \<Rightarrow> real \<Rightarrow> real" where
  "zoom_all fl ops s = foldl (zoom fl) s ops"

section \<open>The element normalizer (src/components/ExcalidrawWrapper.tsx)\<close>

text \<open>
  The second effect of \<^verbatim>\<open>ExcalidrawWrapper\<close> turns the \<^verbatim>\<open>elements\<close> property into the
  elements it loads into the scene.  The items of \<^verbatim>\<open>elements\<close> are taken to be objects.
\<close>

text \<open>\<^verbatim>\<open>a && b\<close>\<close>

definition js_and :: "jsval \<Rightarrow> jsval \<Rightarrow> jsval" where
  "js_and a b = (if truthy a then b else a)"

text \<open>\<^verbatim>\<open>elements.some(el => el.id && el.type)\<close>\<close>

definition isAlreadyExcalidraw :: "obj list \<Rightarrow> bool" where
  "isAlreadyExcalidraw elements =
     list_ex (\<lambda>el. truthy (js_and (field el ''id'') (field el ''type''))) elements"

text \<open>The colour patch of one element (the callback of the second \<^verbatim>\<open>map\<close>).\<close>

definition colorPatch :: "obj \<Rightarrow> obj" where
  "colorPatch el =
     (if field el ''strokeColor'' = JStr ''#000000'' \<or> field el ''strokeColor'' = JStr ''black''
         \<or> \<not> truthy (field el ''strokeColor'')
      then set_field ''strokeColor'' (JStr ''#e2e8f0'') el
      else el)"

text \<open>The branch for elements that are already in the scene library's format.\<close>

definition passThrough :: "bool \<Rightarrow> obj list \<Rightarrow> obj list" where
  "passThrough isDarkMode elements =
     (let finalElements = map (\<lambda>el. el) elements
      in if isDarkMode then map colorPatch finalElements else finalElements)"

text \<open>
  The branch for the simplified schema.  \<open>now\<close> is the reading of \<^verbatim>\<open>Date.now()\<close> taken for
  the element; \<open>js_sub\<close> is JavaScript's subtraction (with its conversion of the operands
  to numbers and its rounding), which the embedding does not evaluate.
\<close>

definition base ::
  "bool \<Rightarrow> nat \<Rightarrow> nat \<Rightarrow> obj \<Rightarrow> obj" where
  "base isDarkMode now index el =
     [(''id'', JStr (''el-'' @ toString index @ ''-'' @ toString now)),
      (''roughness'', JNum (Fin 1)),
      (''strokeWidth'', JNum (Fin 1)),
      (''fillStyle'', JStr ''solid''),
      (''strokeColor'', JStr (if isDarkMode then ''#e2e8f0'' else ''#1e293b'')),
      (''backgroundColor'', js_or (field el ''backgroundColor'') (JStr ''transparent''))]"

definition shapeElement ::
  "bool \<Rightarrow> (jsval \<Rightarrow> jsval \<Rightarrow> jsval) \<Rightarrow> nat \<Rightarrow> nat \<Rightarrow> obj \<Rightarrow> obj option" where
  "shapeElement isDarkMode js_sub now index el =
     (if field el ''type'' = JStr ''rectangle'' \<or> field el ''type'' = JStr ''ellipse'' then
        Some (base isDarkMode now index el @
          [(''type'', field el ''type''),
           (''x'', js_or (field el ''x'') (JNum (Fin 0))),
           (''y'', js_or (field el ''y'') (JNum (Fin 0))),
           (''width'', js_or (field el ''width'') (JNum (Fin 100))),
           (''height'', js_or (field el ''height'') (JNum (Fin 50))),
           (''label'', if truthy (field el ''label'')
                       then JObj [(''text'', field el ''label'')] else JUndefined)])
      else if field el ''type'' = JStr ''arrow'' then
        Some (base isDarkMode now index el @
          [(''type'', JStr ''arrow''),
           (''x'', js_or (field el ''startX'') (JNum (Fin 0))),
           (''y'', js_or (field el ''startY'') (JNum (Fin 0))),
           (''points'',
            JArr [JArr [JNum (Fin 0), JNum (Fin 0)],
                  JArr [js_sub (js_or (field el ''endX'') (JNum (Fin 100)))
                               (js_or (field el ''startX'') (JNum (Fin 0))),
                        js_sub (js_or (field el ''endY'') (JNum (Fin 100)))
                               (js_or (field el ''startY'') (JNum (Fin 0)))]])])
      else if field el ''type'' = JStr ''text'' then
        Some (set_field ''strokeColor'' (JStr (if isDarkMode then ''#f8fafc'' else ''#0f172a''))
          (base isDarkMode now index el @
            [(''type'', JStr ''text''),
             (''x'', js_or (field el ''x'') (JNum (Fin 0))),
             (''y'', js_or (field el ''y'') (JNum (Fin 0))),
             (''text'', js_or (js_or (field el ''text'') (field el ''label'')) (JStr ''Text'')),
             (''fontSize'', js_or (field el ''fontSize'') (JNum (Fin 20)))]))
      else None)"

text \<open>\<^verbatim>\<open>elements.map((el, index) => ...).filter(Boolean)\<close>\<close>

definition mapDescriptors ::
  "bool \<Rightarrow> (jsval \<Rightarrow> jsval \<Rightarrow> jsval) \<Rightarrow> (nat \<Rightarrow> nat) \<Rightarrow> obj list \<Rightarrow> obj list" where
  "mapDescriptors isDarkMode js_sub now elements =
     List.map_filter (\<lambda>(index, el). shapeElement isDarkMode js_sub (now index) index el)
       (enumerate 0 elements)"

definition finalElements ::
  "bool \<Rightarrow> (jsval \<Rightarrow> jsval \<Rightarrow> jsval) \<Rightarrow> (nat \<Rightarrow> nat) \<Rightarrow> obj list \<Rightarrow> obj list" where
  "finalElements isDarkMode js_sub now elements =
     (if isAlreadyExcalidraw elements then passThrough isDarkMode elements
      else mapDescriptors isDarkMode js_sub now elements)"

text \<open>The scene is updated only when there is something to load.\<close>

definition loadElements ::
  "bool \<Rightarrow> (jsval \<Rightarrow> jsval \<Rightarrow> jsval) \<Rightarrow> (nat \<Rightarrow> nat) \<Rightarrow> obj list \<Rightarrow> obj list \<Rightarrow> obj list" where
  "loadElements isDarkMode js_sub now elements scene =
     (if length (finalElements isDarkMode js_sub now elements) > 0
      then finalElements isDarkMode js_sub now elements else scene)"

section \<open>Properties of the history\<close>

lemma toString_7: "toString 7 = ''7''"
  by code_simp

lemma saveToHistory_history:
  "history (fst (saveToHistory cap now1 now2 setItem_ok newState cur)) =
     take 20 (\<lparr> item_id = toString now1, timestamp = now2, item_type = activeTab cap,
                  preview = title newState, state = newState \<rparr> # history cap)"
  by (simp add: saveToHistory_def Let_def)

text \<open>
  C10.  After every save to history the list has at most 20 entries and the entry just
  saved is at index 0.  The entries behind it are the history the handler saw, and when
  that history already has 20 entries its last (oldest) one is dropped.
\<close>

theorem C10_history_bounded_newest_first:
  "length (history (fst (saveToHistory cap now1 now2 setItem_ok newState cur))) \<le> 20
   \<and> history (fst (saveToHistory cap now1 now2 setItem_ok newState cur)) ! 0 =
        \<lparr> item_id = toString now1, timestamp = now2, item_type = activeTab cap,
          preview = title newState, state = newState \<rparr>
   \<and> (length (history cap) < 20 \<longrightarrow>
        tl (history (fst (saveToHistory cap now1 now2 setItem_ok newState cur))) = history cap)
   \<and> (length (history cap) = 20 \<longrightarrow>
        tl (history (fst (saveToHistory cap now1 now2 setItem_ok newState cur)))
          = butlast (history cap))"
proof -
  let ?item = "\<lparr> item_id = toString now1, timestamp = now2, item_type = activeTab cap,
                  preview = title newState, state = newState \<rparr>"
  have h: "history (fst (saveToHistory cap now1 now2 setItem_ok newState cur))
             = ?item # take 19 (history cap)"
    by (simp add: saveToHistory_history take_Cons')
  have "take 19 (history cap) = butlast (history cap)" if "length (history cap) = 20"
    using that by (simp add: butlast_conv_take)
  with h show ?thesis by simp
qed

theorem C10_history_bounded_witness:
  "length (history initial_app) < 20
   \<and> tl (history (fst (saveToHistory initial_app 7 7 True (diagramState initial_app) initial_app)))
       = history initial_app
   \<and> length (history (initial_app\<lparr>history := replicate 20
         \<lparr> item_id = ''3'', timestamp = 3, item_type = MERMAID, preview = ''Untitled Diagram'',
           state = diagramState initial_app \<rparr>\<rparr>)) = 20
   \<and> tl (history (fst (saveToHistory
         (initial_app\<lparr>history := replicate 20
           \<lparr> item_id = ''3'', timestamp = 3, item_type = MERMAID, preview = ''Untitled Diagram'',
             state = diagramState initial_app \<rparr>\<rparr>)
         7 7 True (diagramState initial_app) initial_app)))
       = replicate 19
           \<lparr> item_id = ''3'', timestamp = 3, item_type = MERMAID, preview = ''Untitled Diagram'',
             state = diagramState initial_app \<rparr>"
  using C10_history_bounded_newest_first
          [of initial_app 7 7 True "diagramState initial_app" initial_app]
        C10_history_bounded_newest_first
          [of "initial_app\<lparr>history := replicate 20
                 \<lparr> item_id = ''3'', timestamp = 3, item_type = MERMAID,
                   preview = ''Untitled Diagram'', state = diagramState initial_app \<rparr>\<rparr>"
              7 7 True "diagramState initial_app" initial_app]
  by (simp add: initial_app_def butlast_conv_take)

section \<open>Properties of generation and conversion\<close>

lemma handleGenerate_success:
  assumes "activeTab cap = MERMAID \<or> parse r \<noteq> None"
  shows "history (handleGenerate_resume parse cap prompt (Some r) now1 now2 setItem_ok cur)
           = take 20 (\<lparr> item_id = toString now1, timestamp = now2, item_type = activeTab cap,
                preview = take 30 prompt,
                state = diagramState
                  (handleGenerate_resume parse cap prompt (Some r) now1 now2 setItem_ok cur) \<rparr>
              # history cap)"
  using assms
  by (auto simp: handleGenerate_resume_def saveToHistory_def Let_def alert_def split: option.splits)

text \<open>
  When \<^verbatim>\<open>JSON.parse\<close> throws, the alert is shown and the diagram state stays as it is.
\<close>

lemma handleGenerate_parse_failure:
  "activeTab cap = EXCALIDRAW \<Longrightarrow> parse r = None \<Longrightarrow>
   handleGenerate_resume parse cap prompt (Some r) now1 now2 setItem_ok cur
     = cur\<lparr>alerts := alerts cur @ [''AI generated invalid data structure. Please try again.''],
           isLoading := False\<rparr>"
  by (simp add: handleGenerate_resume_def alert_def)

text \<open>
  C4, as the code has it.  A successful generation (the service answered and, on the
  Excalidraw tab, the answer parsed) writes the resulting diagram state to the history:
  the entry at index 0 carries the new state, and behind it comes the history the handler
  saw.  A successful conversion stores the converted elements in the diagram state and
  switches to the Excalidraw tab; it shows no alert and leaves the history as it is.
\<close>

theorem C4_generation_saved_conversion_not:
  "(activeTab cap = MERMAID \<or> parse r \<noteq> None \<longrightarrow>
      history (handleGenerate_resume parse cap prompt (Some r) now1 now2 setItem_ok cur) \<noteq> []
      \<and> state (history (handleGenerate_resume parse cap prompt (Some r) now1 now2 setItem_ok cur) ! 0)
          = diagramState (handleGenerate_resume parse cap prompt (Some r) now1 now2 setItem_ok cur)
      \<and> tl (history (handleGenerate_resume parse cap prompt (Some r) now1 now2 setItem_ok cur))
          = take 19 (history cap))
   \<and> (parseMermaidToExcalidraw (mermaidCode (diagramState cap)) = Inr elements \<longrightarrow>
      diagramState (handleConvertToExcalidraw_resume parseMermaidToExcalidraw cap cur)
        = (diagramState cur)\<lparr>excalidrawElements := elements\<rparr>
      \<and> activeTab (handleConvertToExcalidraw_resume parseMermaidToExcalidraw cap cur) = EXCALIDRAW
      \<and> alerts (handleConvertToExcalidraw_resume parseMermaidToExcalidraw cap cur) = alerts cur
      \<and> history (handleConvertToExcalidraw_resume parseMermaidToExcalidraw cap cur) = history cur)"
  by (auto simp: handleGenerate_success take_Cons' handleConvertToExcalidraw_resume_def)

theorem C4_generation_saved_witness:
  "activeTab initial_app = MERMAID
   \<and> history (handleGenerate_resume (\<lambda>t. None) initial_app ''two boxes'' (Some ''graph LR'')
        7 8 True (handleGenerate_start initial_app))
       = [\<lparr> item_id = ''7'', timestamp = 8, item_type = MERMAID, preview = ''two boxes'',
            state = \<lparr> mermaidCode = ''graph LR'', excalidrawElements = JArr [],
                      title = ''two boxes'' \<rparr> \<rparr>]
   \<and> diagramState (handleGenerate_resume (\<lambda>t. None) initial_app ''two boxes'' (Some ''graph LR'')
        7 8 True (handleGenerate_start initial_app))
       = \<lparr> mermaidCode = ''graph LR'', excalidrawElements = JArr [], title = ''two boxes'' \<rparr>
   \<and> history (handleConvertToExcalidraw_resume (\<lambda>code. Inr (JArr [])) initial_app
        (handleConvertToExcalidraw_start initial_app)) = []"
  using C4_generation_saved_conversion_not
          [where cap = initial_app and parse = "\<lambda>t. None" and r = "''graph LR''"
             and prompt = "''two boxes''" and ?now1.0 = 7 and ?now2.0 = 8 and setItem_ok = True
             and cur = "handleGenerate_start initial_app"
             and parseMermaidToExcalidraw = "\<lambda>code. Inr (JArr [])" and elements = "JArr []"]
        C4_generation_saved_conversion_not
          [where cap = initial_app and parse = "\<lambda>t. None" and r = "''graph LR''"
             and prompt = "''two boxes''" and ?now1.0 = 7 and ?now2.0 = 8 and setItem_ok = True
             and cur = "handleConvertToExcalidraw_start initial_app"
             and parseMermaidToExcalidraw = "\<lambda>code. Inr (JArr [])" and elements = "JArr []"]
  by (simp add: handleGenerate_resume_def handleGenerate_start_def saveToHistory_def Let_def
        handleConvertToExcalidraw_start_def handleConvertToExcalidraw_resume_def initial_app_def
        toString_7)

text \<open>
  The claim C4 as it is written fails for conversion: after a successful conversion of
  the initial diagram the converted elements are in the diagram state, no alert was
  shown, and the history is still empty.
\<close>

theorem C4_conversion_counterexample:
  "excalidrawElements (diagramState (handleConvertToExcalidraw_resume
       (\<lambda>code. Inr (JArr [JObj [(''id'', JStr ''A''), (''type'', JStr ''rectangle'')]]))
       initial_app (handleConvertToExcalidraw_start initial_app)))
     = JArr [JObj [(''id'', JStr ''A''), (''type'', JStr ''rectangle'')]]
   \<and> alerts (handleConvertToExcalidraw_resume
       (\<lambda>code. Inr (JArr [JObj [(''id'', JStr ''A''), (''type'', JStr ''rectangle'')]]))
       initial_app (handleConvertToExcalidraw_start initial_app)) = []
   \<and> history (handleConvertToExcalidraw_resume
       (\<lambda>code. Inr (JArr [JObj [(''id'', JStr ''A''), (''type'', JStr ''rectangle'')]]))
       initial_app (handleConvertToExcalidraw_start initial_app)) = []"
  by (simp add: handleConvertToExcalidraw_resume_def handleConvertToExcalidraw_start_def
        initial_app_def)

text \<open>
  C5 at the answer \<^verbatim>\<open>{}\<close>, which is JSON but not an array: \<^verbatim>\<open>JSON.parse\<close> returns the
  empty object, and the handler stores it as the element list without any alert.
\<close>

theorem C5_object_is_stored:
  "diagramState (handleGenerate_resume (\<lambda>t. if t = ''{}'' then Some (JObj []) else None)
       (initial_app\<lparr>activeTab := EXCALIDRAW\<rparr>) ''a flowchart'' (Some ''{}'') 7 7 True
       (handleGenerate_start (initial_app\<lparr>activeTab := EXCALIDRAW\<rparr>)))
     = (diagramState initial_app)\<lparr>excalidrawElements := JObj [], title := ''a flowchart''\<rparr>
   \<and> alerts (handleGenerate_resume (\<lambda>t. if t = ''{}'' then Some (JObj []) else None)
       (initial_app\<lparr>activeTab := EXCALIDRAW\<rparr>) ''a flowchart'' (Some ''{}'') 7 7 True
       (handleGenerate_start (initial_app\<lparr>activeTab := EXCALIDRAW\<rparr>))) = []"
  by (simp add: handleGenerate_resume_def handleGenerate_start_def saveToHistory_def
        initial_app_def Let_def)

section \<open>Properties of rendering\<close>

lemma trim_blank: "(\<forall>c \<in> set code. is_ws c) \<Longrightarrow> trim code = []"
proof -
  assume "\<forall>c \<in> set code. is_ws c"
  then have blank: "dropWhile is_ws code = []"
    by simp
  show ?thesis
    unfolding trim_def blank by simp
qed

text \<open>
  C6.  Rendering a source text that is empty or consists of white space only sets the
  svg content to the empty string and clears the error; it starts no call of the
  rendering library, so nothing can fail for it later, and the canvas shows the empty
  scene.
\<close>

theorem C6_blank_source_empty_scene:
  "(\<forall>c \<in> set code. is_ws c) \<Longrightarrow>
     svgContent (renderDiagram code ed) = []
     \<and> error (renderDiagram code ed) = None
     \<and> inflight (renderDiagram code ed) = inflight ed
     \<and> displayed (renderDiagram code ed) = Inr []"
  by (simp add: renderDiagram_def trim_blank displayed_def)

theorem C6_blank_source_witness:
  "is_ws (CHR 0x20) \<and> is_ws (CHR 0x0A) \<and> is_ws (CHR 0x09)
   \<and> error (renderDiagram [CHR 0x20, CHR 0x0A, CHR 0x09]
        \<lparr> svgContent = ''<svg>old</svg>'', error = Some ''Syntax Error'', inflight = [] \<rparr>) = None
   \<and> displayed (renderDiagram [CHR 0x20, CHR 0x0A, CHR 0x09]
        \<lparr> svgContent = ''<svg>old</svg>'', error = Some ''Syntax Error'', inflight = [] \<rparr>) = Inr []"
  using C6_blank_source_empty_scene [of "[CHR 0x20, CHR 0x0A, CHR 0x09]"
          "\<lparr> svgContent = ''<svg>old</svg>'', error = Some ''Syntax Error'', inflight = [] \<rparr>"]
  by (simp add: is_ws_def)




section \<open>Properties of the label commit\<close>

text \<open>
  C2 at the source \<^verbatim>\<open>A[Box]\nB[Box]\<close>, where the label \<^verbatim>\<open>Box\<close> is renamed to \<^verbatim>\<open>Square\<close>.
  Through the editor (double click on the node, typing \<^verbatim>\<open>Square\<close>, Enter) the text typed
  has replaced the old label in the session by the time of the commit, so the commit
  searches for \<^verbatim>\<open>Square\<close>, finds nothing and leaves the source as it is.  Called with the
  old label still in the session, \<^verbatim>\<open>submitNodeUpdate\<close> rewrites both occurrences, since
  its pattern carries the \<^verbatim>\<open>g\<close> flag.  In neither case is the result
  \<^verbatim>\<open>A[Square]\nB[Box]\<close>.
\<close>

theorem C2_commit_at_shared_label:
  "textarea_onKeyDown ''Enter'' False
      (textarea_onChange ''Square''
         (handleNodeDoubleClick False (Some (''flowchart-A-0'', ''Box'')) None))
      (''A[Box]'' @ [CHR 0x0A] @ ''B[Box]'')
     = (''A[Box]'' @ [CHR 0x0A] @ ''B[Box]'', None)
   \<and> submitNodeUpdate (Some \<lparr> node_id = ''flowchart-A-0'', text_of = ''Box'' \<rparr>)
        (''A[Box]'' @ [CHR 0x0A] @ ''B[Box]'') ''Square''
     = (''A[Square]'' @ [CHR 0x0A] @ ''B[Square]'', None)"
  by code_simp

section \<open>Properties of the orientation toggle\<close>

text \<open>
  C8.  From the source \<^verbatim>\<open>graph TD\nA-->B\<close> with orientation \<open>TD\<close>, the first toggle gives
  orientation \<open>LR\<close> and the source \<^verbatim>\<open>graph LR\nA-->B\<close>, and the second toggle gives back
  orientation \<open>TD\<close> and the source \<^verbatim>\<open>graph TD\nA-->B\<close>.  Each toggle leaves the lines
  after the header line as they are.
\<close>

theorem C8_toggle_twice_round_trip:
  "toggleOrientation TD (''graph TD'' @ [CHR 0x0A] @ ''A-->B'')
      = (LR, ''graph LR'' @ [CHR 0x0A] @ ''A-->B'')
   \<and> toggleOrientation LR (''graph LR'' @ [CHR 0x0A] @ ''A-->B'')
      = (TD, ''graph TD'' @ [CHR 0x0A] @ ''A-->B'')
   \<and> tl (split_lines (snd (toggleOrientation TD (''graph TD'' @ [CHR 0x0A] @ ''A-->B''))))
      = tl (split_lines (''graph TD'' @ [CHR 0x0A] @ ''A-->B''))
   \<and> tl (split_lines (snd (toggleOrientation LR (''graph LR'' @ [CHR 0x0A] @ ''A-->B''))))
      = tl (split_lines (''graph LR'' @ [CHR 0x0A] @ ''A-->B''))"
  by code_simp

section \<open>Properties of the zoom\<close>

lemma zoom_in_range:
  assumes fl: "rounding fl" and s: "fl (1/10) \<le> s" "s \<le> 5"
  shows "fl (1/10) \<le> zoom fl s z \<and> zoom fl s z \<le> 5"
proof -
  from fl have mono: "\<And>x y. x \<le> y \<Longrightarrow> fl x \<le> fl y"
    and idem: "\<And>x. fl (fl x) = fl x" and f0: "fl 0 = 0" and f1: "fl 1 = 1" and f5: "fl 5 = 5"
    by (auto simp: rounding_def)
  have lo0: "0 \<le> fl (1/10)" using mono [of 0 "1/10"] f0 by simp
  have lo1: "fl (1/10) \<le> 1" using mono [of "1/10" 1] f1 by simp
  show ?thesis
  proof (cases z)
    case ZoomOut
    have "fl (s - fl (1/10)) \<le> fl 5" using s lo0 by (intro mono) simp
    with f5 lo1 ZoomOut show ?thesis by simp
  next
    case ZoomIn
    have "fl (fl (1/10)) \<le> fl (s + fl (1/10))" using s lo0 by (intro mono) simp
    with idem lo1 ZoomIn show ?thesis by simp
  next
    case ResetView
    with lo1 show ?thesis by simp
  next
    case (Wheel ctrl deltaY)
    with s lo1 show ?thesis by simp
  qed
qed

text \<open>
  C9.  Starting from scale 1, after any sequence of zoom operations (the zoom-out and
  zoom-in buttons, the reset, wheel events with any delta, with or without the control
  key) the scale lies between \<^verbatim>\<open>0.1\<close> and \<^verbatim>\<open>5\<close>.
\<close>

theorem C9_scale_stays_in_range:
  assumes "rounding fl"
  shows "fl (1/10) \<le> zoom_all fl ops 1 \<and> zoom_all fl ops 1 \<le> 5"
proof -
  have inv: "fl (1/10) \<le> zoom_all fl ops s \<and> zoom_all fl ops s \<le> 5"
    if "fl (1/10) \<le> s" "s \<le> 5" for s
    using that
  proof (induction ops arbitrary: s)
    case Nil
    then show ?case by (simp add: zoom_all_def)
  next
    case (Cons z ops)
    from zoom_in_range [OF assms Cons.prems]
    have "fl (1/10) \<le> zoom fl s z" "zoom fl s z \<le> 5" by simp_all
    from Cons.IH [OF this] show ?case by (simp add: zoom_all_def)
  qed
  from assms have mono: "\<And>x y. x \<le> y \<Longrightarrow> fl x \<le> fl y" and f1: "fl 1 = 1"
    by (auto simp: rounding_def)
  have "fl (1/10) \<le> 1" using mono [of "1/10" 1] f1 by simp
  then show ?thesis by (intro inv) simp_all
qed

theorem C9_scale_witness:
  "zoom_all (\<lambda>x. x)
     [ZoomOut, Wheel True 100000, ZoomOut, ZoomIn, Wheel True (- 100000), ZoomIn] 1 = 5
   \<and> zoom_all (\<lambda>x. x) [ZoomOut, Wheel True 100000, ZoomOut] 1 = 1/10
   \<and> (1/10 :: real) \<le> 5"
  using C9_scale_stays_in_range [of "\<lambda>x. x"
          "[ZoomOut, Wheel True 100000, ZoomOut, ZoomIn, Wheel True (- 100000), ZoomIn]"]
  by (simp add: rounding_def zoom_all_def)

section \<open>Properties of the element normalizer\<close>

lemma field_set_field:
  "field (set_field k v el) k' = (if k' = k then v else field el k')"
  by (induction el) (auto simp: field_def)

lemma colorPatch_stroke:
  "truthy (field (colorPatch el) ''strokeColor'')
   \<and> field (colorPatch el) ''strokeColor'' \<noteq> JStr ''#000000''
   \<and> field (colorPatch el) ''strokeColor'' \<noteq> JStr ''black''"
  by (simp add: colorPatch_def field_set_field)

lemma colorPatch_keeps:
  "k \<noteq> ''strokeColor'' \<Longrightarrow> field (colorPatch el) k = field el k"
  by (simp add: colorPatch_def field_set_field)

lemma colorPatch_untouched:
  "truthy (field el ''strokeColor'') \<Longrightarrow> field el ''strokeColor'' \<noteq> JStr ''#000000''
   \<Longrightarrow> field el ''strokeColor'' \<noteq> JStr ''black'' \<Longrightarrow> colorPatch el = el"
  by (simp add: colorPatch_def)

lemma colorPatch_idem: "colorPatch (colorPatch el) = colorPatch el"
  using colorPatch_stroke [of el] by (intro colorPatch_untouched) simp_all

lemma isAlreadyExcalidraw_iff:
  "isAlreadyExcalidraw elements \<longleftrightarrow>
     (\<exists>el \<in> set elements. truthy (field el ''id'') \<and> truthy (field el ''type''))"
  by (auto simp: isAlreadyExcalidraw_def list_ex_iff js_and_def)

lemma isAlreadyExcalidraw_passThrough:
  "isAlreadyExcalidraw (passThrough isDarkMode elements) = isAlreadyExcalidraw elements"
  by (simp add: isAlreadyExcalidraw_iff passThrough_def colorPatch_keeps)

text \<open>
  C7.  In the dark theme the colour patch of the pass-through branch is idempotent:
  patching a patched list changes nothing, because after one pass every element has a
  stroke colour that is set and is neither \<^verbatim>\<open>#000000\<close> nor \<^verbatim>\<open>black\<close>.  In the light theme
  the list is passed through as it is, and in the dark theme an element whose stroke
  colour is set and not black is left as it is.  For a list that takes the pass-through
  branch, normalizing the normalized list gives the normalized list again.
\<close>

theorem C7_color_patch_idempotent:
  "passThrough True (passThrough True elements) = passThrough True elements
   \<and> (\<forall>el \<in> set (passThrough True elements).
         truthy (field el ''strokeColor'') \<and> field el ''strokeColor'' \<noteq> JStr ''#000000''
         \<and> field el ''strokeColor'' \<noteq> JStr ''black'')
   \<and> passThrough False elements = elements
   \<and> (\<forall>el \<in> set elements.
         truthy (field el ''strokeColor'') \<and> field el ''strokeColor'' \<noteq> JStr ''#000000''
         \<and> field el ''strokeColor'' \<noteq> JStr ''black'' \<longrightarrow> colorPatch el = el)
   \<and> (isAlreadyExcalidraw elements \<longrightarrow>
         finalElements True js_sub now (finalElements True js_sub now elements)
           = finalElements True js_sub now elements)"
proof -
  have idem: "passThrough True (passThrough True elements) = passThrough True elements"
    by (simp add: passThrough_def colorPatch_idem)
  have stroke: "\<forall>el \<in> set (passThrough True elements).
         truthy (field el ''strokeColor'') \<and> field el ''strokeColor'' \<noteq> JStr ''#000000''
         \<and> field el ''strokeColor'' \<noteq> JStr ''black''"
    using colorPatch_stroke by (simp add: passThrough_def)
  have light: "passThrough False elements = elements"
    by (simp add: passThrough_def)
  have whole: "finalElements True js_sub now (finalElements True js_sub now elements)
           = finalElements True js_sub now elements" if "isAlreadyExcalidraw elements"
    using that idem by (simp add: finalElements_def isAlreadyExcalidraw_passThrough)
  from idem stroke light whole show ?thesis
    by (simp add: colorPatch_untouched)
qed

theorem C7_color_patch_witness:
  "passThrough True [[(''id'', JStr ''a''), (''type'', JStr ''rectangle''), (''strokeColor'', JStr ''#000000'')], [(''id'', JStr ''b''), (''type'', JStr ''arrow''), (''strokeColor'', JStr ''#ff0000'')]] = [[(''id'', JStr ''a''), (''type'', JStr ''rectangle''), (''strokeColor'', JStr ''#e2e8f0'')], [(''id'', JStr ''b''), (''type'', JStr ''arrow''), (''strokeColor'', JStr ''#ff0000'')]]
   \<and> passThrough True (passThrough True [[(''id'', JStr ''a''), (''type'', JStr ''rectangle''), (''strokeColor'', JStr ''#000000'')], [(''id'', JStr ''b''), (''type'', JStr ''arrow''), (''strokeColor'', JStr ''#ff0000'')]]) = [[(''id'', JStr ''a''), (''type'', JStr ''rectangle''), (''strokeColor'', JStr ''#e2e8f0'')], [(''id'', JStr ''b''), (''type'', JStr ''arrow''), (''strokeColor'', JStr ''#ff0000'')]]
   \<and> truthy (field [(''id'', JStr ''b''), (''type'', JStr ''arrow''), (''strokeColor'', JStr ''#ff0000'')] ''strokeColor'') \<and> colorPatch [(''id'', JStr ''b''), (''type'', JStr ''arrow''), (''strokeColor'', JStr ''#ff0000'')] = [(''id'', JStr ''b''), (''type'', JStr ''arrow''), (''strokeColor'', JStr ''#ff0000'')]
   \<and> isAlreadyExcalidraw [[(''id'', JStr ''a''), (''type'', JStr ''rectangle''), (''strokeColor'', JStr ''#000000'')], [(''id'', JStr ''b''), (''type'', JStr ''arrow''), (''strokeColor'', JStr ''#ff0000'')]]
   \<and> finalElements True (\<lambda>a b. JNum NaN) (\<lambda>index. 5) (finalElements True (\<lambda>a b. JNum NaN) (\<lambda>index. 5) [[(''id'', JStr ''a''), (''type'', JStr ''rectangle''), (''strokeColor'', JStr ''#000000'')], [(''id'', JStr ''b''), (''type'', JStr ''arrow''), (''strokeColor'', JStr ''#ff0000'')]]) = [[(''id'', JStr ''a''), (''type'', JStr ''rectangle''), (''strokeColor'', JStr ''#e2e8f0'')], [(''id'', JStr ''b''), (''type'', JStr ''arrow''), (''strokeColor'', JStr ''#ff0000'')]]"
proof -
  have concrete: "passThrough True [[(''id'', JStr ''a''), (''type'', JStr ''rectangle''), (''strokeColor'', JStr ''#000000'')], [(''id'', JStr ''b''), (''type'', JStr ''arrow''), (''strokeColor'', JStr ''#ff0000'')]] = [[(''id'', JStr ''a''), (''type'', JStr ''rectangle''), (''strokeColor'', JStr ''#e2e8f0'')], [(''id'', JStr ''b''), (''type'', JStr ''arrow''), (''strokeColor'', JStr ''#ff0000'')]]
      \<and> truthy (field [(''id'', JStr ''b''), (''type'', JStr ''arrow''), (''strokeColor'', JStr ''#ff0000'')] ''strokeColor'')
      \<and> isAlreadyExcalidraw [[(''id'', JStr ''a''), (''type'', JStr ''rectangle''), (''strokeColor'', JStr ''#000000'')], [(''id'', JStr ''b''), (''type'', JStr ''arrow''), (''strokeColor'', JStr ''#ff0000'')]]
      \<and> finalElements True (\<lambda>a b. JNum NaN) (\<lambda>index. 5) [[(''id'', JStr ''a''), (''type'', JStr ''rectangle''), (''strokeColor'', JStr ''#000000'')], [(''id'', JStr ''b''), (''type'', JStr ''arrow''), (''strokeColor'', JStr ''#ff0000'')]] = [[(''id'', JStr ''a''), (''type'', JStr ''rectangle''), (''strokeColor'', JStr ''#e2e8f0'')], [(''id'', JStr ''b''), (''type'', JStr ''arrow''), (''strokeColor'', JStr ''#ff0000'')]]"
    by code_simp
  with C7_color_patch_idempotent [of "[[(''id'', JStr ''a''), (''type'', JStr ''rectangle''), (''strokeColor'', JStr ''#000000'')], [(''id'', JStr ''b''), (''type'', JStr ''arrow''), (''strokeColor'', JStr ''#ff0000'')]]" "\<lambda>a b. JNum NaN" "\<lambda>index. 5"]
  show ?thesis
    by simp
qed

text \<open>
  C3, as the code has it.  The normalizer takes the pass-through branch (with the colour
  patch in the dark theme) if and only if at least one item of the list has a truthy
  \<^verbatim>\<open>id\<close> and a truthy \<^verbatim>\<open>type\<close>; when no item has both, every item is mapped as a shape
  descriptor of its kind, with its index, and the items of an unknown kind are dropped.
\<close>

theorem C3_pass_through_iff_some_item:
  "((\<exists>el \<in> set elements. truthy (field el ''id'') \<and> truthy (field el ''type'')) \<longrightarrow>
      finalElements isDarkMode js_sub now elements
        = (if isDarkMode then map colorPatch elements else elements))
   \<and> ((\<forall>el \<in> set elements. \<not> (truthy (field el ''id'') \<and> truthy (field el ''type''))) \<longrightarrow>
      finalElements isDarkMode js_sub now elements
        = map the (filter (\<lambda>r. r \<noteq> None)
            (map (\<lambda>index. shapeElement isDarkMode js_sub (now index) index (elements ! index))
               [0..<length elements])))"
proof -
  have z: "enumerate 0 elements = map (\<lambda>index. (index, elements ! index)) [0..<length elements]"
    by (rule nth_equalityI) (simp_all add: nth_enumerate_eq)
  have m: "mapDescriptors isDarkMode js_sub now elements
      = map the (filter (\<lambda>r. r \<noteq> None)
            (map (\<lambda>index. shapeElement isDarkMode js_sub (now index) index (elements ! index))
               [0..<length elements]))"
    unfolding mapDescriptors_def z
    by (simp add: List.map_filter_def filter_map comp_def)
  show ?thesis
    using isAlreadyExcalidraw_iff [of elements]
    by (auto simp: finalElements_def passThrough_def m)
qed

theorem C3_pass_through_witness:
  "truthy (field [(''id'', JStr ''a''), (''type'', JStr ''rectangle'')] ''id'') \<and> truthy (field [(''id'', JStr ''a''), (''type'', JStr ''rectangle'')] ''type'')
   \<and> finalElements False (\<lambda>a b. JNum NaN) (\<lambda>index. 5) [[(''id'', JStr ''a''), (''type'', JStr ''rectangle'')], [(''type'', JStr ''ellipse'')]] = [[(''id'', JStr ''a''), (''type'', JStr ''rectangle'')], [(''type'', JStr ''ellipse'')]]
   \<and> \<not> truthy (field [(''type'', JStr ''rectangle'')] ''id'')
   \<and> finalElements False (\<lambda>a b. JNum NaN) (\<lambda>index. 5) [[(''type'', JStr ''rectangle'')]] =
       [[(''id'', JStr ''el-0-5''), (''roughness'', JNum (Fin 1)), (''strokeWidth'', JNum (Fin 1)),
         (''fillStyle'', JStr ''solid''), (''strokeColor'', JStr ''#1e293b''),
         (''backgroundColor'', JStr ''transparent''), (''type'', JStr ''rectangle''),
         (''x'', JNum (Fin 0)), (''y'', JNum (Fin 0)), (''width'', JNum (Fin 100)),
         (''height'', JNum (Fin 50)), (''label'', JUndefined)]]"
proof -
  have concrete: "truthy (field [(''id'', JStr ''a''), (''type'', JStr ''rectangle'')] ''id'') \<and> truthy (field [(''id'', JStr ''a''), (''type'', JStr ''rectangle'')] ''type'')
      \<and> \<not> truthy (field [(''type'', JStr ''rectangle'')] ''id'')
      \<and> map the (filter (\<lambda>r. r \<noteq> None)
            (map (\<lambda>index. shapeElement False (\<lambda>a b. JNum NaN) ((\<lambda>index. 5) index) index ([[(''type'', JStr ''rectangle'')]] ! index))
               [0..<length [[(''type'', JStr ''rectangle'')]]])) =
       [[(''id'', JStr ''el-0-5''), (''roughness'', JNum (Fin 1)), (''strokeWidth'', JNum (Fin 1)),
         (''fillStyle'', JStr ''solid''), (''strokeColor'', JStr ''#1e293b''),
         (''backgroundColor'', JStr ''transparent''), (''type'', JStr ''rectangle''),
         (''x'', JNum (Fin 0)), (''y'', JNum (Fin 0)), (''width'', JNum (Fin 100)),
         (''height'', JNum (Fin 50)), (''label'', JUndefined)]]"
    by code_simp
  with C3_pass_through_iff_some_item [of "[[(''id'', JStr ''a''), (''type'', JStr ''rectangle'')], [(''type'', JStr ''ellipse'')]]" False "\<lambda>a b. JNum NaN" "\<lambda>index. 5"]
       C3_pass_through_iff_some_item [of "[[(''type'', JStr ''rectangle'')]]" False "\<lambda>a b. JNum NaN" "\<lambda>index. 5"]
  show ?thesis
    by simp
qed

text \<open>
  The claim C3 as it is written fails on a mixed list: the second item has no \<^verbatim>\<open>id\<close>, yet
  the normalizer takes the pass-through branch and returns the list as it is, which is
  not what mapping the items as shape descriptors gives.
\<close>

theorem C3_mixed_list_counterexample:
  "\<not> truthy (field [(''type'', JStr ''ellipse'')] ''id'')
   \<and> finalElements False (\<lambda>a b. JNum NaN) (\<lambda>index. 5) [[(''id'', JStr ''a''), (''type'', JStr ''rectangle'')], [(''type'', JStr ''ellipse'')]] = [[(''id'', JStr ''a''), (''type'', JStr ''rectangle'')], [(''type'', JStr ''ellipse'')]]
   \<and> mapDescriptors False (\<lambda>a b. JNum NaN) (\<lambda>index. 5) [[(''id'', JStr ''a''), (''type'', JStr ''rectangle'')], [(''type'', JStr ''ellipse'')]] \<noteq> [[(''id'', JStr ''a''), (''type'', JStr ''rectangle'')], [(''type'', JStr ''ellipse'')]]"
  by code_simp

end
